theory Spec2Isabelle
  imports Complex_Main
begin

section \<open>Padlock probe generation (libnano.padlock)\<close>

text \<open>
  A shallow embedding of \<^verbatim>\<open>src/libnano/padlock.py\<close>. Python strings are
  \<^typ>\<open>string\<close>, Python integers are \<^typ>\<open>int\<close>, exceptions are the left summand
  of a result type. Numbers that Python holds as floats (GC fractions, melting
  temperatures, thresholds) are values of a type variable \<open>'f\<close> of which only the linear
  order and the two operations \<open>+\<close> and \<open>*\<close> are used: no law of arithmetic is assumed of
  them, so rounding is not idealised away (the order is that of floats that are not NaN).
  The collaborators that are not part of the module (the GC-content utility, primer3's
  two calculators, the data file \<^verbatim>\<open>padlock.yaml\<close>) are fields of a record that
  every function takes as its first argument. Diagnostic printing (\<^verbatim>\<open>do_print\<close>)
  has no effect on any result and is left out.
\<close>

subsection \<open>Python primitives\<close>

datatype py_error = ValueError string | IndexError | UnboundLocalError

text \<open>\<^verbatim>\<open>xs[i:j]\<close>: negative bounds count from the end, all bounds are clipped.\<close>

definition py_slice :: "'a list \<Rightarrow> int \<Rightarrow> int \<Rightarrow> 'a list" where
  "py_slice xs i j =
     (let n = int (length xs);
          lo = (if i < 0 then max (i + n) 0 else min i n);
          hi = (if j < 0 then max (j + n) 0 else min j n)
      in if lo < hi then take (nat (hi - lo)) (drop (nat lo) xs) else [])"

text \<open>\<^verbatim>\<open>xs[i:]\<close>\<close>

definition py_slice_from :: "'a list \<Rightarrow> int \<Rightarrow> 'a list" where
  "py_slice_from xs i = py_slice xs i (int (length xs))"

text \<open>\<^verbatim>\<open>sub in s\<close> on strings: \<open>sub\<close> occurs as a contiguous substring.\<close>

fun py_in :: "'a list \<Rightarrow> 'a list \<Rightarrow> bool" where
  "py_in sub [] = (sub = [])"
| "py_in sub (c # cs) = (take (length sub) (c # cs) = sub \<or> py_in sub cs)"

text \<open>\<^verbatim>\<open>range(n)\<close>\<close>

definition py_range :: "int \<Rightarrow> int list" where
  "py_range n = map int [0..<nat n]"

text \<open>\<^verbatim>\<open>s.count(c)\<close> for a one-character \<open>c\<close>\<close>

definition py_count :: "string \<Rightarrow> char \<Rightarrow> int" where
  "py_count s c = int (count_list s c)"

text \<open>
  \<^verbatim>\<open>sorted(items, key=f, reverse=True)\<close>: Python's sort is stable, and with
  \<^verbatim>\<open>reverse=True\<close> elements with equal keys still keep their original order
  (CPython reverses the list, sorts it stably in ascending order, and reverses the result).
\<close>

definition py_sorted_reverse :: "('a \<Rightarrow> 'k::linorder) \<Rightarrow> 'a list \<Rightarrow> 'a list" where
  "py_sorted_reverse f items = rev (sort_key f (rev items))"

subsection \<open>The data file and the scaffold templates\<close>

text \<open>
  Modelled from the spec: \<^verbatim>\<open>padlock.yaml\<close> is not among the sources. The spec says
  of the templates it holds that each contains ``a designated barcode slot and several
  always-empty auxiliary slots''. A template is therefore a list of pieces, each a run of
  literal text or one of the seven named fields that \<^verbatim>\<open>create_scaffold\<close> passes to
  \<^verbatim>\<open>str.format\<close>; the contents of the file are a parameter.
\<close>

datatype slot = Slot_barcode | Slot_armr | Slot_t2s5p | Slot_t2s3p | Slot_il5p | Slot_il3p | Slot_arml

datatype piece = Lit string | Field slot

type_synonym template = "piece list"

record padlock_yaml =
  yaml_T2S_SEQ :: template
  yaml_SCAFFOLD_SEQ_SOLID :: "template \<times> template"
  yaml_SCAFFOLD_SEQ_ILUMINA :: "template \<times> template"
  yaml_ILLLUMINA_SEQ :: template
  yaml_SCAFFOLD_SEQ_HYBRID :: "template \<times> template \<times> template"

definition T2S_SEQ :: "padlock_yaml \<Rightarrow> template" where
  "T2S_SEQ Y = yaml_T2S_SEQ Y"

definition SCAFFOLD_SEQ_SOLID :: "padlock_yaml \<Rightarrow> template" where
  "SCAFFOLD_SEQ_SOLID Y =
     fst (yaml_SCAFFOLD_SEQ_SOLID Y) @ T2S_SEQ Y @ snd (yaml_SCAFFOLD_SEQ_SOLID Y)"

definition SCAFFOLD_SEQ_ILUMINA :: "padlock_yaml \<Rightarrow> template" where
  "SCAFFOLD_SEQ_ILUMINA Y =
     fst (yaml_SCAFFOLD_SEQ_ILUMINA Y) @ T2S_SEQ Y @ snd (yaml_SCAFFOLD_SEQ_ILUMINA Y)"

definition ILLLUMINA_SEQ :: "padlock_yaml \<Rightarrow> template" where
  "ILLLUMINA_SEQ Y = yaml_ILLLUMINA_SEQ Y"

definition SCAFFOLD_SEQ_HYBRID :: "padlock_yaml \<Rightarrow> template" where
  "SCAFFOLD_SEQ_HYBRID Y =
     fst (yaml_SCAFFOLD_SEQ_HYBRID Y) @ ILLLUMINA_SEQ Y @
     fst (snd (yaml_SCAFFOLD_SEQ_HYBRID Y)) @ T2S_SEQ Y @
     snd (snd (yaml_SCAFFOLD_SEQ_HYBRID Y))"

text \<open>
  \<^verbatim>\<open>scaffold.format(barcode=barcode, armr='', t2s5p='', t2s3p='', il5p='', il3p='', arml='')\<close>
\<close>

fun format_field :: "string \<Rightarrow> slot \<Rightarrow> string" where
  "format_field bc Slot_barcode = bc"
| "format_field bc Slot_armr = ''''"
| "format_field bc Slot_t2s5p = ''''"
| "format_field bc Slot_t2s3p = ''''"
| "format_field bc Slot_il5p = ''''"
| "format_field bc Slot_il3p = ''''"
| "format_field bc Slot_arml = ''''"

fun format_piece :: "string \<Rightarrow> piece \<Rightarrow> string" where
  "format_piece bc (Lit s) = s"
| "format_piece bc (Field f) = format_field bc f"

definition str_format :: "template \<Rightarrow> string \<Rightarrow> string" where
  "str_format t bc = concat (map (format_piece bc) t)"

definition create_scaffold :: "padlock_yaml \<Rightarrow> string \<Rightarrow> string \<Rightarrow> py_error + string" where
  "create_scaffold Y bc scaf_type =
     (if scaf_type = ''solid'' then Inr (str_format (SCAFFOLD_SEQ_SOLID Y) bc)
      else if scaf_type = ''illumina'' then Inr (str_format (SCAFFOLD_SEQ_ILUMINA Y) bc)
      else if scaf_type = ''hybrid'' then Inr (str_format (SCAFFOLD_SEQ_HYBRID Y) bc)
      else Inl (ValueError (''Unknown scaf_type, '' @ scaf_type)))"

subsection \<open>External collaborators and the configuration\<close>

record 'f thermo_params =
  mv_conc :: 'f
  dv_conc :: 'f
  dntp_conc :: 'f
  dna_conc :: 'f

text \<open>
  \<open>py_number\<close> gives the Python number that a numeric literal of the source denotes
  (\<^verbatim>\<open>0.9\<close> is \<open>py_number E (9 / 10)\<close>).
\<close>

record 'f externals =
  PADLOCK_SEQS :: padlock_yaml
  gc_content :: "string \<Rightarrow> 'f"
  calcTm :: "string \<Rightarrow> 'f thermo_params \<Rightarrow> 'f"
  calcHeterodimerTm :: "string \<Rightarrow> string \<Rightarrow> 'f thermo_params \<Rightarrow> 'f"
  py_number :: "rat \<Rightarrow> 'f"

text \<open>The configuration dictionary with all of its thirteen keys.\<close>

record 'f padlock_config =
  cfg_species :: string
  cfg_padding :: int
  cfg_spacing :: int
  cfg_arm_length :: int
  cfg_gap_size :: int
  cfg_arm_gc_min :: 'f
  cfg_arm_gc_max :: 'f
  cfg_scaffold :: template
  cfg_exclude_seqs :: "string list"
  cfg_structure_tm_max :: 'f
  cfg_keep_random_n :: "int option"
  cfg_thermo_params :: "'f thermo_params"
  cfg_arm_tm_min :: 'f

definition DEFAULT_PADLOCK_CONFIG :: "'f externals \<Rightarrow> 'f padlock_config" where
  "DEFAULT_PADLOCK_CONFIG E =
     \<lparr> cfg_species = ''human'',
       cfg_padding = 25,
       cfg_spacing = 20,
       cfg_arm_length = 20,
       cfg_gap_size = 0,
       cfg_arm_gc_min = py_number E (4 / 10),
       cfg_arm_gc_max = py_number E (6 / 10),
       cfg_scaffold = SCAFFOLD_SEQ_HYBRID (PADLOCK_SEQS E),
       cfg_exclude_seqs = [''GGGGG''],
       cfg_structure_tm_max = py_number E 30,
       cfg_keep_random_n = None,
       cfg_thermo_params =
         \<lparr> mv_conc = py_number E 50, dv_conc = py_number E 0,
           dntp_conc = py_number E (8 / 10), dna_conc = py_number E 50 \<rparr>,
       cfg_arm_tm_min = py_number E 50 \<rparr>"

text \<open>The module-level \<^verbatim>\<open>P_PARAMS\<close>, as the module initialises it.\<close>

definition P_PARAMS :: "'f externals \<Rightarrow> 'f padlock_config" where
  "P_PARAMS E = DEFAULT_PADLOCK_CONFIG E"

text \<open>
  The \<^verbatim>\<open>params\<close> dictionary a caller passes: any subset of the keys
  (\<open>None\<close> is an absent key).
\<close>

record 'f padlock_params =
  key_species :: "string option"
  key_padding :: "int option"
  key_spacing :: "int option"
  key_arm_length :: "int option"
  key_gap_size :: "int option"
  key_arm_gc_min :: "'f option"
  key_arm_gc_max :: "'f option"
  key_scaffold :: "template option"
  key_exclude_seqs :: "string list option"
  key_structure_tm_max :: "'f option"
  key_keep_random_n :: "int option option"
  key_thermo_params :: "'f thermo_params option"
  key_arm_tm_min :: "'f option"

text \<open>\<^verbatim>\<open>d[k] = v\<close> for a key the other dictionary has, \<open>d\<close> unchanged otherwise.\<close>

definition override :: "'a \<Rightarrow> 'a option \<Rightarrow> 'a" where
  "override d v = (case v of None \<Rightarrow> d | Some x \<Rightarrow> x)"

text \<open>\<^verbatim>\<open>default_p.update(params)\<close>\<close>

definition dict_update :: "'f padlock_config \<Rightarrow> 'f padlock_params \<Rightarrow> 'f padlock_config" where
  "dict_update d p =
     \<lparr> cfg_species = override (cfg_species d) (key_species p),
       cfg_padding = override (cfg_padding d) (key_padding p),
       cfg_spacing = override (cfg_spacing d) (key_spacing p),
       cfg_arm_length = override (cfg_arm_length d) (key_arm_length p),
       cfg_gap_size = override (cfg_gap_size d) (key_gap_size p),
       cfg_arm_gc_min = override (cfg_arm_gc_min d) (key_arm_gc_min p),
       cfg_arm_gc_max = override (cfg_arm_gc_max d) (key_arm_gc_max p),
       cfg_scaffold = override (cfg_scaffold d) (key_scaffold p),
       cfg_exclude_seqs = override (cfg_exclude_seqs d) (key_exclude_seqs p),
       cfg_structure_tm_max = override (cfg_structure_tm_max d) (key_structure_tm_max p),
       cfg_keep_random_n = override (cfg_keep_random_n d) (key_keep_random_n p),
       cfg_thermo_params = override (cfg_thermo_params d) (key_thermo_params p),
       cfg_arm_tm_min = override (cfg_arm_tm_min d) (key_arm_tm_min p) \<rparr>"

subsection \<open>Records of the module\<close>

record PadHit =
  name0 :: string
  name1 :: string
  strand_dir :: string
  genome_idx :: int
  idx :: int
  gap_size :: int
  padlock_seq :: string
  barcode :: string
  seq_r :: string
  scaffold :: string
  seq_l :: string

text \<open>The report dictionary of \<^verbatim>\<open>screen_padlock_arms\<close>, with its thirteen keys.\<close>

record 'f report =
  arm_gc_min_l :: 'f
  arm_gc_max_l :: 'f
  arm_gc_min_r :: 'f
  arm_gc_max_r :: 'f
  l_clamp :: bool
  tm_arm_min_l :: 'f
  tm_arm_min_r :: 'f
  ex_seq :: "string list"
  tm_hairpin_l :: 'f
  tm_hairpin_r :: 'f
  tm_hetero_0 :: 'f
  tm_hetero_1 :: 'f
  tm_hetero_2 :: 'f

subsection \<open>GC clamps\<close>

definition padlock_right_arm_gc_clamp :: "string \<Rightarrow> int" where
  "padlock_right_arm_gc_clamp p =
     (let r_3p = py_slice_from p (- 5);
          r_3p_check = py_count r_3p CHR ''G'' + py_count r_3p CHR ''C''
      in r_3p_check)"

definition padlock_left_arm_gc_clamp :: "string \<Rightarrow> int" where
  "padlock_left_arm_gc_clamp p =
     (let l_3p = py_slice p 0 5;
          l_3p_check = py_count l_3p CHR ''G'' + py_count l_3p CHR ''C''
      in l_3p_check)"

subsection \<open>The arm screen\<close>

text \<open>
  The loop over \<^verbatim>\<open>p_params['exclude_seqs']\<close>; its state is the flag
  \<^verbatim>\<open>ex_fail\<close> and the list \<^verbatim>\<open>report['ex_seq']\<close>. The first branch is the one
  that ends in \<^verbatim>\<open>break\<close>.
\<close>

fun exclude_loop :: "string list \<Rightarrow> string \<Rightarrow> bool \<times> string list \<Rightarrow> bool \<times> string list" where
  "exclude_loop [] p_seq st = st"
| "exclude_loop (ex # rest) p_seq (ex_fail, found) =
     (if py_in ex p_seq then (True, found @ [ex])
      else exclude_loop rest p_seq (ex_fail, found))"

definition screen_padlock_arms ::
  "('f::{linorder,plus,times}) externals \<Rightarrow> string \<Rightarrow> string \<Rightarrow> string \<Rightarrow> 'f padlock_config
     \<Rightarrow> bool \<times> 'f report" where
  "screen_padlock_arms E p_l_seq p_r_seq loop_seq p_params =
     (let is_good = True;
          tp = cfg_thermo_params p_params;
          rep = \<lparr> arm_gc_min_l = py_number E 0, arm_gc_max_l = py_number E 0,
                  arm_gc_min_r = py_number E 0, arm_gc_max_r = py_number E 0,
                  l_clamp = True,
                  tm_arm_min_l = py_number E 0, tm_arm_min_r = py_number E 0,
                  ex_seq = [],
                  tm_hairpin_l = py_number E 0, tm_hairpin_r = py_number E 0,
                  tm_hetero_0 = py_number E 0, tm_hetero_1 = py_number E 0,
                  tm_hetero_2 = py_number E 0 \<rparr>;
          \<comment> \<open>1. GC content checks\<close>
          p_l_gc_content = gc_content E p_l_seq;
          p_r_gc_content = gc_content E p_r_seq;
          is_good = (if p_l_gc_content < cfg_arm_gc_min p_params then False else is_good);
          rep = rep\<lparr>arm_gc_min_l := p_l_gc_content\<rparr>;
          is_good = (if p_r_gc_content < cfg_arm_gc_min p_params then False else is_good);
          rep = rep\<lparr>arm_gc_min_r := p_r_gc_content\<rparr>;
          is_good = (if p_l_gc_content > cfg_arm_gc_max p_params then False else is_good);
          rep = rep\<lparr>arm_gc_max_l := p_l_gc_content\<rparr>;
          is_good = (if p_r_gc_content > cfg_arm_gc_max p_params then False else is_good);
          rep = rep\<lparr>arm_gc_max_r := p_r_gc_content\<rparr>;
          \<comment> \<open>2. GC clamp checks\<close>
          l_3p_check = padlock_left_arm_gc_clamp p_l_seq;
          is_good = (if l_3p_check > 3 then False else is_good);
          rep = rep\<lparr>l_clamp := False\<rparr>;
          \<comment> \<open>3. Arm Tm check\<close>
          p_arm_tm_l = calcTm E p_l_seq tp;
          p_arm_tm_r = calcTm E p_r_seq tp;
          is_good = (if p_arm_tm_l < cfg_arm_tm_min p_params then False else is_good);
          rep = rep\<lparr>tm_arm_min_l := p_arm_tm_l\<rparr>;
          is_good = (if p_arm_tm_r < cfg_arm_tm_min p_params then False else is_good);
          rep = rep\<lparr>tm_arm_min_r := p_arm_tm_r\<rparr>;
          p_seq = p_r_seq @ loop_seq @ p_l_seq;
          \<comment> \<open>4. Check for excluded seqs\<close>
          (ex_fail, found) = exclude_loop (cfg_exclude_seqs p_params) p_seq (False, ex_seq rep);
          rep = rep\<lparr>ex_seq := found\<rparr>;
          is_good = (if ex_fail then False else is_good);
          \<comment> \<open>5. Secondary structure / primer dimer checks\<close>
          p_het_tm_0 = calcHeterodimerTm E p_l_seq p_r_seq tp;
          p_het_tm_1 = calcHeterodimerTm E p_l_seq loop_seq tp;
          p_het_tm_2 = calcHeterodimerTm E p_r_seq loop_seq tp;
          is_good = (if p_het_tm_0 > cfg_structure_tm_max p_params then False else is_good);
          rep = rep\<lparr>tm_hetero_0 := p_het_tm_0\<rparr>;
          is_good = (if p_het_tm_1 > cfg_structure_tm_max p_params then False else is_good);
          rep = rep\<lparr>tm_hetero_1 := p_het_tm_1\<rparr>;
          is_good = (if p_het_tm_2 > cfg_structure_tm_max p_params then False else is_good);
          rep = rep\<lparr>tm_hetero_2 := p_het_tm_2\<rparr>
      in (is_good, rep))"

subsection \<open>Clustering and ranking\<close>

text \<open>
  The loop of \<^verbatim>\<open>split_hit_list\<close>. Its state is \<^verbatim>\<open>delta\<close> and
  \<^verbatim>\<open>hit_lists\<close>; the variable \<^verbatim>\<open>group\<close> is always the list object that was
  appended to \<^verbatim>\<open>hit_lists\<close> last, so \<^verbatim>\<open>group.append\<close> extends the last
  element of \<^verbatim>\<open>hit_lists\<close>.
\<close>

fun split_loop ::
  "int \<Rightarrow> int \<Rightarrow> int \<Rightarrow> (int \<times> 'r) list list \<Rightarrow> (int \<times> 'r) list \<Rightarrow> (int \<times> 'r) list list" where
  "split_loop arm_len spc delta hit_lists [] = hit_lists"
| "split_loop arm_len spc delta hit_lists ((i, rep) # rest) =
     (if i > delta
      then split_loop arm_len spc (i + 2 * arm_len + spc) (hit_lists @ [[(i, rep)]]) rest
      else split_loop arm_len spc delta (butlast hit_lists @ [last hit_lists @ [(i, rep)]]) rest)"

definition split_hit_list :: "(int \<times> 'r) list \<Rightarrow> int \<Rightarrow> int \<Rightarrow> (int \<times> 'r) list list" where
  "split_hit_list items arm_len spc =
     (if length items > 0
      then split_loop arm_len spc (fst (items ! 0) + 2 * arm_len + spc) [[]] items
      else [])"

definition max_tm_f :: "('f::{linorder,plus,times}) externals \<Rightarrow> int \<times> 'f report \<Rightarrow> 'f" where
  "max_tm_f E x = tm_arm_min_l (snd x) + py_number E (9 / 10) * tm_arm_min_r (snd x)"

definition sort_hit_list ::
  "('f::{linorder,plus,times}) externals \<Rightarrow> (int \<times> 'f report) list \<Rightarrow> (int \<times> 'f report) list" where
  "sort_hit_list E items = py_sorted_reverse (max_tm_f E) items"

subsection \<open>Probe generation\<close>

text \<open>
  The loop over \<^verbatim>\<open>barcodes\<close>. Its state is the variable \<^verbatim>\<open>scaffold\<close> and the
  loop variable \<^verbatim>\<open>barcode\<close>, which is unbound (\<open>None\<close>) until the first iteration
  and which the code reads again after the loop. The loop has no \<^verbatim>\<open>break\<close>.
\<close>

fun barcode_loop ::
  "padlock_yaml \<Rightarrow> string list \<Rightarrow> string \<times> string option \<Rightarrow> py_error + (string \<times> string option)" where
  "barcode_loop Y [] st = Inr st"
| "barcode_loop Y (b # bs) (scaf, bvar) =
     (case create_scaffold Y b ''hybrid'' of
        Inl e \<Rightarrow> Inl e
      | Inr candidate_scaffold \<Rightarrow>
          barcode_loop Y bs
            (if \<not> py_in ''GGGG'' candidate_scaffold then candidate_scaffold else scaf, Some b))"

text \<open>The loop over \<^verbatim>\<open>search_range\<close> that fills \<^verbatim>\<open>items\<close>.\<close>

fun screen_windows ::
  "('f::{linorder,plus,times}) externals \<Rightarrow> string \<Rightarrow> int \<Rightarrow> int \<Rightarrow> string \<Rightarrow> 'f padlock_config
     \<Rightarrow> int list \<Rightarrow> (int \<times> 'f report) list" where
  "screen_windows E seq arm_len gap scaf params [] = []"
| "screen_windows E seq arm_len gap scaf params (i # rest) =
     (if \<not> py_in ''GGGG'' (py_slice seq i (i + 2 * arm_len + gap)) then
        (let l_primer = py_slice seq i (i + arm_len);
             r_primer = py_slice seq (i + arm_len + gap) (i + 2 * arm_len + gap);
             (is_good, rep) = screen_padlock_arms E l_primer r_primer scaf params
         in if is_good then (i, rep) # screen_windows E seq arm_len gap scaf params rest
            else screen_windows E seq arm_len gap scaf params rest)
      else screen_windows E seq arm_len gap scaf params rest)"

text \<open>\<^verbatim>\<open>[x[0] for x in hit_lists]\<close>: indexing an empty group raises.\<close>

fun pick_first :: "'a list list \<Rightarrow> py_error + 'a list" where
  "pick_first [] = Inr []"
| "pick_first ([] # xs) = Inl IndexError"
| "pick_first ((y # ys) # xs) =
     (case pick_first xs of Inl e \<Rightarrow> Inl e | Inr rest \<Rightarrow> Inr (y # rest))"

text \<open>The body of the last loop: one \<^verbatim>\<open>PadHit\<close> for a sampled item.\<close>

definition make_hit ::
  "string \<Rightarrow> string \<Rightarrow> string \<Rightarrow> string \<Rightarrow> int \<Rightarrow> int \<Rightarrow> int \<Rightarrow> string \<Rightarrow> string
     \<Rightarrow> int \<times> 'r \<Rightarrow> PadHit" where
  "make_hit seq nm0 nm1 sdir gidx arm_len gap scaf bvar item =
     (let i = fst item;
          sq_l = py_slice seq i (i + arm_len);
          sq_r = py_slice seq (i + arm_len + gap) (i + 2 * arm_len + gap)
      in \<lparr> name0 = nm0, name1 = nm1, strand_dir = sdir, genome_idx = gidx, idx = i,
           gap_size = gap, padlock_seq = sq_r @ scaf @ sq_l, barcode = bvar,
           seq_r = sq_r, scaffold = scaf, seq_l = sq_l \<rparr>)"

text \<open>
  \<^verbatim>\<open>generate_padlocks\<close>. The argument \<open>barcodes\<close> is a list, so the test
  \<^verbatim>\<open>isinstance(barcodes, (tuple, list))\<close> holds. \<open>params_arg\<close> is \<open>None\<close> when the
  caller passes no dictionary.
\<close>

text \<open>
  Lines 395 to 400: the module's \<^verbatim>\<open>P_PARAMS\<close> when no dictionary is passed, a fresh
  copy of the defaults updated with the caller's keys otherwise.
\<close>

definition effective_params :: "'f externals \<Rightarrow> 'f padlock_params option \<Rightarrow> 'f padlock_config" where
  "effective_params E params_arg =
     (case params_arg of
        None \<Rightarrow> P_PARAMS E
      | Some p \<Rightarrow> dict_update (DEFAULT_PADLOCK_CONFIG E) p)"

definition generate_padlocks ::
  "('f::{linorder,plus,times}) externals \<Rightarrow> string \<Rightarrow> string \<Rightarrow> string \<Rightarrow> string \<Rightarrow> string list
     \<Rightarrow> int \<Rightarrow> int \<Rightarrow> 'f padlock_params option \<Rightarrow> py_error + PadHit list" where
  "generate_padlocks E seq nm0 nm1 sdir barcodes gidx arm_len params_arg =
     (let params = effective_params E params_arg;
          arm_length2 = 2 * arm_len;
          gap = cfg_gap_size params;
          spc = cfg_spacing params
      in if length barcodes = 0 then Inl (ValueError ''barcodes length must be non-zero'')
         else
           (case barcode_loop (PADLOCK_SEQS E) barcodes ('''', None) of
              Inl e \<Rightarrow> Inl e
            | Inr (scaf, bvar) \<Rightarrow>
                if scaf = '''' then Inl (ValueError ''polyG in scaffold for all barcodes'')
                else
                  (let items = screen_windows E seq arm_len gap scaf params
                                 (py_range (int (length seq) - arm_length2));
                       hit_lists = split_hit_list items arm_len spc;
                       hit_lists = map (sort_hit_list E) hit_lists
                   in case pick_first hit_lists of
                        Inl e \<Rightarrow> Inl e
                      | Inr sampled_list \<Rightarrow>
                          (case bvar of
                             None \<Rightarrow> Inl UnboundLocalError
                           | Some b \<Rightarrow>
                               Inr (map (make_hit seq nm0 nm1 sdir gidx arm_len gap scaf b)
                                      sampled_list)))))"

subsection \<open>A concrete instance\<close>

text \<open>
  Small but complete values for the collaborators, on which the definitions above can be
  evaluated: the GC fraction of a sequence, the rule of thumb \<open>2(A+T) + 4(G+C)\<close> for a
  melting temperature, no heterodimer, rational numbers for Python's numbers, and a data
  file whose hybrid template instantiates to \<^verbatim>\<open>TCA<barcode>ACCT\<close>.
\<close>

definition gc_fraction :: "string \<Rightarrow> rat" where
  "gc_fraction s =
     (if s = [] then 0
      else of_int (py_count s CHR ''G'' + py_count s CHR ''C'') / of_int (int (length s)))"

definition wallace_tm :: "string \<Rightarrow> rat" where
  "wallace_tm s =
     of_int (2 * (py_count s CHR ''A'' + py_count s CHR ''T'') +
             4 * (py_count s CHR ''G'' + py_count s CHR ''C''))"

definition demo_yaml :: padlock_yaml where
  "demo_yaml =
     \<lparr> yaml_T2S_SEQ = [Lit ''AC''],
       yaml_SCAFFOLD_SEQ_SOLID = ([Lit ''T'', Field Slot_barcode], [Field Slot_arml]),
       yaml_SCAFFOLD_SEQ_ILUMINA = ([Field Slot_barcode, Lit ''A''], [Lit ''T'']),
       yaml_ILLLUMINA_SEQ = [Lit ''A''],
       yaml_SCAFFOLD_SEQ_HYBRID =
         ([Field Slot_armr, Lit ''TC''], [Field Slot_barcode], [Lit ''CT'', Field Slot_arml]) \<rparr>"

definition demo_env :: "rat externals" where
  "demo_env =
     \<lparr> PADLOCK_SEQS = demo_yaml,
       gc_content = gc_fraction,
       calcTm = (\<lambda>s tp. wallace_tm s),
       calcHeterodimerTm = (\<lambda>a b tp. 0),
       py_number = (\<lambda>q. q) \<rparr>"

text \<open>The empty dictionary, and one that opens the GC and Tm bounds of the screen.\<close>

definition no_keys :: "rat padlock_params" where
  "no_keys =
     \<lparr> key_species = None, key_padding = None, key_spacing = None, key_arm_length = None,
       key_gap_size = None, key_arm_gc_min = None, key_arm_gc_max = None, key_scaffold = None,
       key_exclude_seqs = None, key_structure_tm_max = None, key_keep_random_n = None,
       key_thermo_params = None, key_arm_tm_min = None \<rparr>"

definition demo_params :: "int \<Rightarrow> int \<Rightarrow> rat padlock_params" where
  "demo_params spc gap =
     no_keys\<lparr> key_spacing := Some spc, key_gap_size := Some gap,
              key_arm_gc_min := Some 0, key_arm_gc_max := Some 1, key_arm_tm_min := Some 0 \<rparr>"


subsection \<open>Reference definitions, in the words of the specification\<close>

text \<open>
  A barcode is viable when its instantiated hybrid scaffold has no run of four G.
\<close>

definition viable_barcode :: "padlock_yaml \<Rightarrow> string \<Rightarrow> bool" where
  "viable_barcode Y b =
     (case create_scaffold Y b ''hybrid'' of Inl e \<Rightarrow> False | Inr s \<Rightarrow> \<not> py_in ''GGGG'' s)"






section \<open>Properties\<close>

subsection \<open>Auxiliary facts\<close>

lemma create_scaffold_hybrid:
  "create_scaffold Y b ''hybrid'' = Inr (str_format (SCAFFOLD_SEQ_HYBRID Y) b)"
  by (simp add: create_scaffold_def)

lemma viable_barcode_hybrid:
  "viable_barcode Y b = (\<not> py_in ''GGGG'' (str_format (SCAFFOLD_SEQ_HYBRID Y) b))"
  by (simp add: viable_barcode_def create_scaffold_hybrid)

lemma find_append:
  "find P (xs @ ys) = (case find P xs of None \<Rightarrow> find P ys | Some x \<Rightarrow> Some x)"
  by (induction xs) auto

lemma barcode_loop_result:
  "barcode_loop Y bs (s, v) =
     Inr (case find (viable_barcode Y) (rev bs) of
            None \<Rightarrow> s
          | Some b \<Rightarrow> str_format (SCAFFOLD_SEQ_HYBRID Y) b,
          if bs = [] then v else Some (last bs))"
proof (induction bs arbitrary: s v)
  case Nil
  show ?case by simp
next
  case (Cons b bs)
  show ?case
    by (simp add: Cons.IH create_scaffold_hybrid viable_barcode_hybrid find_append
        split: option.splits)
qed

lemma in_py_range: "i \<in> set (py_range n) \<longleftrightarrow> 0 \<le> i \<and> i < n"
  by (auto simp: py_range_def image_iff intro: bexI[of _ "nat i"])

lemma screen_windows_fst: "x \<in> set (screen_windows E seq a g sc P is) \<Longrightarrow> fst x \<in> set is"
  by (induction "is") (auto simp: Let_def split: if_splits prod.splits)

lemma concat_split_loop:
  "hl \<noteq> [] \<Longrightarrow> concat (split_loop a s d hl items) = concat hl @ items"
proof (induction items arbitrary: d hl)
  case Nil
  show ?case by simp
next
  case (Cons x xs)
  obtain i r where x: "x = (i, r)" by (cases x)
  from Cons.prems have "concat (butlast hl) @ last hl = concat hl"
    by (metis append_butlast_last_id concat.simps(2) concat_append append_Nil2 concat.simps(1))
  then show ?case by (simp add: x Cons.IH)
qed

lemma concat_split_hit_list: "concat (split_hit_list items a s) = items"
  by (simp add: split_hit_list_def concat_split_loop)

lemma pick_first_subset: "pick_first xs = Inr ys \<Longrightarrow> set ys \<subseteq> set (concat xs)"
  by (induction xs arbitrary: ys rule: pick_first.induct) (auto split: sum.splits)

lemma set_sort_hit_list: "set (sort_hit_list E g) = set g"
  by (simp add: sort_hit_list_def py_sorted_reverse_def)

lemma generate_padlocks_Inr:
  assumes "generate_padlocks E seq nm0 nm1 sdir barcodes gidx arm_len pa = Inr hits"
  shows "\<exists>scaf sampled.
           barcodes \<noteq> [] \<and>
           barcode_loop (PADLOCK_SEQS E) barcodes ('''', None) = Inr (scaf, Some (last barcodes)) \<and>
           scaf \<noteq> [] \<and>
           pick_first (map (sort_hit_list E)
             (split_hit_list
                (screen_windows E seq arm_len (cfg_gap_size (effective_params E pa)) scaf
                   (effective_params E pa) (py_range (int (length seq) - 2 * arm_len)))
                arm_len (cfg_spacing (effective_params E pa)))) = Inr sampled \<and>
           hits = map (make_hit seq nm0 nm1 sdir gidx arm_len
                         (cfg_gap_size (effective_params E pa)) scaf (last barcodes)) sampled"
  using assms
  by (auto simp: generate_padlocks_def Let_def barcode_loop_result
      split: if_splits sum.splits option.splits prod.splits)


lemma py_slice_length:
  "0 \<le> i \<Longrightarrow> i \<le> j \<Longrightarrow> j \<le> int (length xs) \<Longrightarrow> int (length (py_slice xs i j)) = j - i"
  by (auto simp: py_slice_def Let_def min_def)

lemma sampled_in_range:
  assumes "pick_first (map (sort_hit_list E) (split_hit_list (screen_windows E seq a g sc P (py_range n)) a s)) = Inr sampled"
    and "x \<in> set sampled"
  shows "0 \<le> fst x \<and> fst x < n"
proof -
  have "set sampled \<subseteq> set (concat (map (sort_hit_list E) (split_hit_list (screen_windows E seq a g sc P (py_range n)) a s)))"
    using assms(1) by (rule pick_first_subset)
  also have "\<dots> = set (concat (split_hit_list (screen_windows E seq a g sc P (py_range n)) a s))"
    by (simp add: set_sort_hit_list)
  also have "\<dots> = set (screen_windows E seq a g sc P (py_range n))"
    by (simp add: concat_split_hit_list)
  finally have "x \<in> set (screen_windows E seq a g sc P (py_range n))"
    using assms(2) by blast
  then have "fst x \<in> set (py_range n)" by (rule screen_windows_fst)
  then show ?thesis by (simp add: in_py_range)
qed

lemma screen_padlock_arms_scaffold_key:
  "screen_padlock_arms E l r lp (P\<lparr>cfg_scaffold := t\<rparr>) = screen_padlock_arms E l r lp P"
  by (simp add: screen_padlock_arms_def)

lemma screen_windows_scaffold_key:
  "screen_windows E seq a g sc (P\<lparr>cfg_scaffold := t\<rparr>) is = screen_windows E seq a g sc P is"
  by (induction "is")
     (simp_all add: screen_padlock_arms_scaffold_key Let_def split: prod.splits)

lemma effective_params_scaffold_key:
  "effective_params E (Some (p\<lparr>key_scaffold := x\<rparr>)) =
     (effective_params E (Some p))\<lparr>cfg_scaffold := override (cfg_scaffold (DEFAULT_PADLOCK_CONFIG E)) x\<rparr>"
  by (simp add: effective_params_def dict_update_def)

lemma generate_padlocks_scaffold_key:
  "generate_padlocks E seq nm0 nm1 sdir barcodes gidx arm_len (Some (p\<lparr>key_scaffold := x\<rparr>)) =
   generate_padlocks E seq nm0 nm1 sdir barcodes gidx arm_len (Some p)"
  by (simp add: generate_padlocks_def effective_params_scaffold_key screen_windows_scaffold_key
      Let_def split: sum.splits prod.splits option.splits)










subsection \<open>Two evaluated runs\<close>

lemma demo_run_gap2:
  "generate_padlocks demo_env ''ACACA'' ''n0'' ''n1'' ''fwd'' [''AT''] (- 1) 2
     (Some (demo_params 20 2)) =
   Inr [\<lparr>name0 = ''n0'', name1 = ''n1'', strand_dir = ''fwd'', genome_idx = - 1, idx = 0,
          gap_size = 2, padlock_seq = ''ATCAATACCTAC'', barcode = ''AT'', seq_r = ''A'',
          scaffold = ''TCAATACCT'', seq_l = ''AC''\<rparr>]"
  by code_simp

lemma demo_run_two_hits:
  "generate_padlocks demo_env ''AAAAAA'' ''n0'' ''n1'' ''fwd'' [''AT'', ''GGGG''] (- 1) 1
     (Some (demo_params 0 0)) =
   Inr [\<lparr>name0 = ''n0'', name1 = ''n1'', strand_dir = ''fwd'', genome_idx = - 1, idx = 0,
          gap_size = 0, padlock_seq = ''ATCAATACCTA'', barcode = ''GGGG'', seq_r = ''A'',
          scaffold = ''TCAATACCT'', seq_l = ''A''\<rparr>,
        \<lparr>name0 = ''n0'', name1 = ''n1'', strand_dir = ''fwd'', genome_idx = - 1, idx = 3,
          gap_size = 0, padlock_seq = ''ATCAATACCTA'', barcode = ''GGGG'', seq_r = ''A'',
          scaffold = ''TCAATACCT'', seq_l = ''A''\<rparr>]"
  by code_simp

subsection \<open>Probe records\<close>

text \<open>
  What holds of every PadHit that \<^verbatim>\<open>generate_padlocks\<close> returns: \<open>padlock_seq\<close> is
  \<open>seq_r + scaffold + seq_l\<close>; for \<open>arm_length\<close> not negative the left arm has
  \<open>arm_length\<close> bases; and the right arm has \<open>arm_length\<close> bases whenever its slice
  \<^verbatim>\<open>seq[idx + arm_length + gap_size : idx + 2 * arm_length + gap_size]\<close> lies inside the
  sequence.
\<close>

lemma padhit_structure:
  assumes run: "generate_padlocks E seq nm0 nm1 sdir barcodes gidx arm_len pa = Inr hits"
    and h: "h \<in> set hits"
  shows "padlock_seq h = seq_r h @ scaffold h @ seq_l h \<and>
         gap_size h = cfg_gap_size (effective_params E pa) \<and>
         0 \<le> idx h \<and> idx h < int (length seq) - 2 * arm_len \<and>
         (0 \<le> arm_len \<longrightarrow> int (length (seq_l h)) = arm_len) \<and>
         (0 \<le> arm_len \<and> 0 \<le> idx h + arm_len + gap_size h \<and>
          idx h + 2 * arm_len + gap_size h \<le> int (length seq)
          \<longrightarrow> int (length (seq_r h)) = arm_len \<and>
              int (length (padlock_seq h)) = 2 * arm_len + int (length (scaffold h)))"
proof -
  define G where "G = cfg_gap_size (effective_params E pa)"
  from generate_padlocks_Inr[OF run] obtain scaf sampled where
    pick: "pick_first (map (sort_hit_list E)
             (split_hit_list
                (screen_windows E seq arm_len G scaf
                   (effective_params E pa) (py_range (int (length seq) - 2 * arm_len)))
                arm_len (cfg_spacing (effective_params E pa)))) = Inr sampled"
    and hits: "hits = map (make_hit seq nm0 nm1 sdir gidx arm_len G scaf (last barcodes)) sampled"
    unfolding G_def by blast
  from h hits obtain x where x: "x \<in> set sampled"
    and hx: "h = make_hit seq nm0 nm1 sdir gidx arm_len G scaf (last barcodes) x"
    by auto
  from sampled_in_range[OF pick x]
  have lo: "0 \<le> fst x" and hi: "fst x < int (length seq) - 2 * arm_len" by simp_all
  have 1: "padlock_seq h = seq_r h @ scaffold h @ seq_l h" and 2: "gap_size h = G"
    and 3: "idx h = fst x"
    and sl: "seq_l h = py_slice seq (fst x) (fst x + arm_len)"
    and sr: "seq_r h = py_slice seq (fst x + arm_len + G) (fst x + 2 * arm_len + G)"
    by (simp_all add: hx make_hit_def Let_def)
  have 4: "int (length (seq_l h)) = arm_len" if "0 \<le> arm_len"
    using py_slice_length[of "fst x" "fst x + arm_len" seq] lo hi that by (simp add: sl)
  have 5: "int (length (seq_r h)) = arm_len"
    if "0 \<le> arm_len" "0 \<le> fst x + arm_len + G" "fst x + 2 * arm_len + G \<le> int (length seq)"
    using py_slice_length[of "fst x + arm_len + G" "fst x + 2 * arm_len + G" seq] that
    by (simp add: sr)
  show ?thesis
    using 1 2 3 4 5 lo hi by (auto simp: G_def)
qed

text \<open>
  Claim C1 fails on this run. \<^verbatim>\<open>search_range\<close> is \<^verbatim>\<open>range(len(seq) - 2 * arm_length)\<close>:
  it leaves \<open>gap_size\<close> out, although the window of a probe is
  \<open>2 * arm_length + gap_size\<close> long. With \<open>arm_length = 2\<close> and \<open>gap_size = 2\<close> on the five
  bases \<^verbatim>\<open>ACACA\<close> the window at index 0 is enumerated, its right arm is \<^verbatim>\<open>seq[4:6]\<close>,
  and the slice is cut at the end of the sequence: the probe is returned with a right arm of
  one base and twelve bases in all, where the invariant asks for two and thirteen.
\<close>

theorem right_arm_cut_at_sequence_end:
  "generate_padlocks demo_env ''ACACA'' ''n0'' ''n1'' ''fwd'' [''AT''] (- 1) 2
     (Some (demo_params 20 2)) =
   Inr [\<lparr>name0 = ''n0'', name1 = ''n1'', strand_dir = ''fwd'', genome_idx = - 1, idx = 0,
          gap_size = 2, padlock_seq = ''ATCAATACCTAC'', barcode = ''AT'', seq_r = ''A'',
          scaffold = ''TCAATACCT'', seq_l = ''AC''\<rparr>] \<and>
   cfg_gap_size (effective_params demo_env (Some (demo_params 20 2))) = 2 \<and>
   py_range (int (length ''ACACA'') - 2 * 2) = [0] \<and>
   int (length ''A'') \<noteq> 2 \<and>
   int (length ''ATCAATACCTAC'') \<noteq> 2 * 2 + int (length ''TCAATACCT'')"
proof -
  have g: "cfg_gap_size (effective_params demo_env (Some (demo_params 20 2))) = 2"
    by code_simp
  have r: "py_range (int (length ''ACACA'') - 2 * 2) = [0]"
    by code_simp
  from demo_run_gap2 g r show ?thesis by simp
qed

text \<open>
  Claim C7. In every run of \<^verbatim>\<open>generate_padlocks\<close> that returns normally, the
  \<open>barcode\<close> field of every PadHit is the last barcode of the input list. The evaluated run
  after it has the barcodes \<^verbatim>\<open>AT\<close> and \<^verbatim>\<open>GGGG\<close>: the probes carry the scaffold
  of \<^verbatim>\<open>AT\<close> and are labelled \<^verbatim>\<open>GGGG\<close>.
\<close>

theorem barcode_field_is_last_barcode:
  assumes "generate_padlocks E seq nm0 nm1 sdir barcodes gidx arm_len pa = Inr hits"
    and "h \<in> set hits"
  shows "barcode h = last barcodes"
  using generate_padlocks_Inr[OF assms(1)] assms(2)
  by (auto simp: make_hit_def Let_def)

theorem barcode_field_is_last_barcode_witness:
  "generate_padlocks demo_env ''AAAAAA'' ''n0'' ''n1'' ''fwd'' [''AT'', ''GGGG''] (- 1) 1
     (Some (demo_params 0 0)) =
   Inr [\<lparr>name0 = ''n0'', name1 = ''n1'', strand_dir = ''fwd'', genome_idx = - 1, idx = 0,
          gap_size = 0, padlock_seq = ''ATCAATACCTA'', barcode = ''GGGG'', seq_r = ''A'',
          scaffold = ''TCAATACCT'', seq_l = ''A''\<rparr>,
        \<lparr>name0 = ''n0'', name1 = ''n1'', strand_dir = ''fwd'', genome_idx = - 1, idx = 3,
          gap_size = 0, padlock_seq = ''ATCAATACCTA'', barcode = ''GGGG'', seq_r = ''A'',
          scaffold = ''TCAATACCT'', seq_l = ''A''\<rparr>] \<and>
   barcode \<lparr>name0 = ''n0'', name1 = ''n1'', strand_dir = ''fwd'', genome_idx = - 1, idx = 0,
          gap_size = 0, padlock_seq = ''ATCAATACCTA'', barcode = ''GGGG'', seq_r = ''A'',
          scaffold = ''TCAATACCT'', seq_l = ''A''\<rparr> = last [''AT'', ''GGGG''] \<and>
   create_scaffold demo_yaml ''AT'' ''hybrid'' = Inr ''TCAATACCT'' \<and>
   create_scaffold demo_yaml ''GGGG'' ''hybrid'' = Inr ''TCAGGGGACCT''"
proof -
  have c1: "create_scaffold demo_yaml ''AT'' ''hybrid'' = Inr ''TCAATACCT''" by code_simp
  have c2: "create_scaffold demo_yaml ''GGGG'' ''hybrid'' = Inr ''TCAGGGGACCT''" by code_simp
  show ?thesis
    using demo_run_two_hits c1 c2
      barcode_field_is_last_barcode[OF demo_run_two_hits,
        of "\<lparr>name0 = ''n0'', name1 = ''n1'', strand_dir = ''fwd'', genome_idx = - 1, idx = 0,
          gap_size = 0, padlock_seq = ''ATCAATACCTA'', barcode = ''GGGG'', seq_r = ''A'',
          scaffold = ''TCAATACCT'', seq_l = ''A''\<rparr>"]
    by simp
qed

subsection \<open>The scaffold key of the configuration\<close>

text \<open>
  Claim C10. Two runs of \<^verbatim>\<open>generate_padlocks\<close> whose \<^verbatim>\<open>params\<close> dictionaries
  differ at most in the key \<^verbatim>\<open>scaffold\<close> (present with any value, or absent) return
  the same result: neither the screen nor the generation reads that key.
\<close>

theorem output_independent_of_scaffold_key:
  "generate_padlocks E seq nm0 nm1 sdir barcodes gidx arm_len (Some (p\<lparr>key_scaffold := x\<rparr>)) =
   generate_padlocks E seq nm0 nm1 sdir barcodes gidx arm_len (Some (p\<lparr>key_scaffold := y\<rparr>))"
  by (simp add: generate_padlocks_scaffold_key)

subsection \<open>Clustering and ranking\<close>



subsection \<open>Spacing of the selected probes\<close>

lemma sorted_py_range: "sorted_wrt (<) (py_range n)"
  by (simp add: py_range_def sorted_wrt_map)

lemma sorted_screen_windows:
  "sorted_wrt (<) is \<Longrightarrow> sorted_wrt (<) (map fst (screen_windows E seq a g sc P is))"
proof (induction "is")
  case Nil
  show ?case by simp
next
  case (Cons i "is")
  then have later: "\<forall>x\<in>set (screen_windows E seq a g sc P is). i < fst x"
    using screen_windows_fst[of _ E seq a g sc P "is"] by auto
  from Cons show ?case
    using later by (auto simp: Let_def split: prod.splits)
qed

lemma pick_first_sorted:
  "sorted_wrt (<) (map fst (concat gs)) \<Longrightarrow> pick_first (map (sort_hit_list E) gs) = Inr ss
     \<Longrightarrow> sorted_wrt (<) (map fst ss)"
proof (induction gs arbitrary: ss)
  case Nil
  then show ?case by simp
next
  case (Cons g gs)
  from Cons.prems(2) obtain y ys rest where
    sg: "sort_hit_list E g = y # ys" and rest: "pick_first (map (sort_hit_list E) gs) = Inr rest"
    and ss: "ss = y # rest"
    by (cases "sort_hit_list E g") (auto split: sum.splits)
  from sg have yg: "y \<in> set g" by (metis list.set_intros(1) set_sort_hit_list)
  from pick_first_subset[OF rest] have sub: "set rest \<subseteq> set (concat gs)"
    by (simp add: set_sort_hit_list)
  from Cons.prems(1) have tail: "sorted_wrt (<) (map fst (concat gs))"
    and cross: "\<forall>a\<in>set g. \<forall>b\<in>set (concat gs). fst a < fst b"
    by (auto simp: sorted_wrt_append)
  from Cons.IH[OF tail rest] have "sorted_wrt (<) (map fst rest)" .
  moreover have "\<forall>z\<in>set rest. fst y < fst z"
    using cross yg sub by blast
  ultimately show ?case by (simp add: ss)
qed

lemma idx_make_hit: "idx (make_hit seq nm0 nm1 sdir gidx a g sc b x) = fst x"
  by (simp add: make_hit_def Let_def)

lemma generate_padlocks_idx_sorted:
  assumes "generate_padlocks E seq nm0 nm1 sdir barcodes gidx arm_len pa = Inr hits"
  shows "sorted_wrt (<) (map idx hits)"
proof -
  from generate_padlocks_Inr[OF assms] obtain scaf sampled where
    pick: "pick_first (map (sort_hit_list E)
             (split_hit_list
                (screen_windows E seq arm_len (cfg_gap_size (effective_params E pa)) scaf
                   (effective_params E pa) (py_range (int (length seq) - 2 * arm_len)))
                arm_len (cfg_spacing (effective_params E pa)))) = Inr sampled"
    and hits: "hits = map (make_hit seq nm0 nm1 sdir gidx arm_len
                         (cfg_gap_size (effective_params E pa)) scaf (last barcodes)) sampled"
    by blast
  have "sorted_wrt (<) (map fst sampled)"
    by (rule pick_first_sorted[OF _ pick])
       (simp add: concat_split_hit_list sorted_screen_windows sorted_py_range)
  moreover have "map idx hits = map fst sampled"
    by (simp add: hits idx_make_hit comp_def)
  ultimately show ?thesis by simp
qed

lemma demo_run_boundary:
  "generate_padlocks demo_env ''AAAAACCAA'' ''n0'' ''n1'' ''fwd'' [''AT''] (- 1) 1
     (Some (demo_params 3 0)) =
   Inr [\<lparr>name0 = ''n0'', name1 = ''n1'', strand_dir = ''fwd'', genome_idx = - 1, idx = 5,
          gap_size = 0, padlock_seq = ''CTCAATACCTC'', barcode = ''AT'', seq_r = ''C'',
          scaffold = ''TCAATACCT'', seq_l = ''C''\<rparr>,
        \<lparr>name0 = ''n0'', name1 = ''n1'', strand_dir = ''fwd'', genome_idx = - 1, idx = 6,
          gap_size = 0, padlock_seq = ''ATCAATACCTC'', barcode = ''AT'', seq_r = ''A'',
          scaffold = ''TCAATACCT'', seq_l = ''C''\<rparr>]"
  by code_simp

text \<open>
  Claim C3, as amended. In every run of \<^verbatim>\<open>generate_padlocks\<close> that returns normally
  the window indices of the returned probes increase strictly: for adjacent selected
  probes, which always come from different clusters, \<open>next.idx - prev.idx \<ge> 1\<close>. No
  larger bound holds in general.
\<close>

theorem adjacent_probes_strictly_increasing:
  assumes "generate_padlocks E seq nm0 nm1 sdir barcodes gidx arm_len pa = Inr hits"
    and "Suc k < length hits"
  shows "idx (hits ! Suc k) - idx (hits ! k) \<ge> 1"
proof -
  from generate_padlocks_idx_sorted[OF assms(1)] have "sorted_wrt (<) (map idx hits)" .
  then have "map idx hits ! k < map idx hits ! Suc k"
    using assms(2) by (intro sorted_wrt_nth_less) auto
  with assms(2) show ?thesis by simp
qed

theorem adjacent_probes_strictly_increasing_witness:
  "generate_padlocks demo_env ''AAAAACCAA'' ''n0'' ''n1'' ''fwd'' [''AT''] (- 1) 1
     (Some (demo_params 3 0)) =
   Inr [\<lparr>name0 = ''n0'', name1 = ''n1'', strand_dir = ''fwd'', genome_idx = - 1, idx = 5,
          gap_size = 0, padlock_seq = ''CTCAATACCTC'', barcode = ''AT'', seq_r = ''C'',
          scaffold = ''TCAATACCT'', seq_l = ''C''\<rparr>,
        \<lparr>name0 = ''n0'', name1 = ''n1'', strand_dir = ''fwd'', genome_idx = - 1, idx = 6,
          gap_size = 0, padlock_seq = ''ATCAATACCTC'', barcode = ''AT'', seq_r = ''A'',
          scaffold = ''TCAATACCT'', seq_l = ''C''\<rparr>] \<and>
   Suc 0 < length [\<lparr>name0 = ''n0'', name1 = ''n1'', strand_dir = ''fwd'', genome_idx = - 1, idx = 5,
          gap_size = 0, padlock_seq = ''CTCAATACCTC'', barcode = ''AT'', seq_r = ''C'',
          scaffold = ''TCAATACCT'', seq_l = ''C''\<rparr>,
        \<lparr>name0 = ''n0'', name1 = ''n1'', strand_dir = ''fwd'', genome_idx = - 1, idx = 6,
          gap_size = 0, padlock_seq = ''ATCAATACCTC'', barcode = ''AT'', seq_r = ''A'',
          scaffold = ''TCAATACCT'', seq_l = ''C''\<rparr>] \<and>
   idx \<lparr>name0 = ''n0'', name1 = ''n1'', strand_dir = ''fwd'', genome_idx = - 1, idx = 6,
          gap_size = 0, padlock_seq = ''ATCAATACCTC'', barcode = ''AT'', seq_r = ''A'',
          scaffold = ''TCAATACCT'', seq_l = ''C''\<rparr> - idx \<lparr>name0 = ''n0'', name1 = ''n1'', strand_dir = ''fwd'', genome_idx = - 1, idx = 5,
          gap_size = 0, padlock_seq = ''CTCAATACCTC'', barcode = ''AT'', seq_r = ''C'',
          scaffold = ''TCAATACCT'', seq_l = ''C''\<rparr> \<ge> 1"
  using demo_run_boundary adjacent_probes_strictly_increasing[OF demo_run_boundary, of 0]
  by simp

text \<open>
  Claim C3 as stated (\<open>next.idx - prev.idx \<ge> spacing\<close>) fails. With \<open>arm_length = 1\<close> and
  \<open>spacing = 3\<close> on \<^verbatim>\<open>AAAAACCAA\<close> the seven windows form the clusters of indices
  \<open>0..5\<close> and \<open>6\<close>; the best member of the first cluster is its last one (both arms are
  \<^verbatim>\<open>C\<close>), so the probes at 5 and 6 are returned, one base apart.
\<close>

theorem cluster_spacing_counterexample:
  "generate_padlocks demo_env ''AAAAACCAA'' ''n0'' ''n1'' ''fwd'' [''AT''] (- 1) 1
     (Some (demo_params 3 0)) =
   Inr [\<lparr>name0 = ''n0'', name1 = ''n1'', strand_dir = ''fwd'', genome_idx = - 1, idx = 5,
          gap_size = 0, padlock_seq = ''CTCAATACCTC'', barcode = ''AT'', seq_r = ''C'',
          scaffold = ''TCAATACCT'', seq_l = ''C''\<rparr>,
        \<lparr>name0 = ''n0'', name1 = ''n1'', strand_dir = ''fwd'', genome_idx = - 1, idx = 6,
          gap_size = 0, padlock_seq = ''ATCAATACCTC'', barcode = ''AT'', seq_r = ''A'',
          scaffold = ''TCAATACCT'', seq_l = ''C''\<rparr>] \<and>
   map (map fst)
     (split_hit_list
        (screen_windows demo_env ''AAAAACCAA'' 1 0 ''TCAATACCT''
           (effective_params demo_env (Some (demo_params 3 0))) (py_range 7)) 1 3) =
   [[0, 1, 2, 3, 4, 5], [6]] \<and>
   cfg_spacing (effective_params demo_env (Some (demo_params 3 0))) = 3 \<and>
   \<not> (idx \<lparr>name0 = ''n0'', name1 = ''n1'', strand_dir = ''fwd'', genome_idx = - 1, idx = 6,
          gap_size = 0, padlock_seq = ''ATCAATACCTC'', barcode = ''AT'', seq_r = ''A'',
          scaffold = ''TCAATACCT'', seq_l = ''C''\<rparr> - idx \<lparr>name0 = ''n0'', name1 = ''n1'', strand_dir = ''fwd'', genome_idx = - 1, idx = 5,
          gap_size = 0, padlock_seq = ''CTCAATACCTC'', barcode = ''AT'', seq_r = ''C'',
          scaffold = ''TCAATACCT'', seq_l = ''C''\<rparr> \<ge> 3)"
proof -
  have "map (map fst)
     (split_hit_list
        (screen_windows demo_env ''AAAAACCAA'' 1 0 ''TCAATACCT''
           (effective_params demo_env (Some (demo_params 3 0))) (py_range 7)) 1 3) =
   [[0, 1, 2, 3, 4, 5], [6]]"
    by code_simp
  moreover have "cfg_spacing (effective_params demo_env (Some (demo_params 3 0))) = 3"
    by code_simp
  ultimately show ?thesis using demo_run_boundary by simp
qed

subsection \<open>Errors\<close>

lemma find_None_iff2: "find P xs = None \<longleftrightarrow> (\<forall>x\<in>set xs. \<not> P x)"
  by (induction xs) auto




lemma find_viable:
  assumes "b \<in> set barcodes" "viable_barcode Y b"
  shows "\<exists>b'. find (viable_barcode Y) (rev barcodes) = Some b'"
proof (cases "find (viable_barcode Y) (rev barcodes)")
  case None
  then have "\<forall>x\<in>set barcodes. \<not> viable_barcode Y x" by (simp add: find_None_iff2)
  with assms show ?thesis by blast
next
  case (Some a)
  then show ?thesis by (rule exI)
qed










subsection \<open>The barcode loop\<close>

lemma find_rev_Some:
  "find P (rev xs) = Some b \<Longrightarrow>
     \<exists>pre post. xs = pre @ b # post \<and> P b \<and> (\<forall>x\<in>set post. \<not> P x)"
proof (induction xs rule: rev_induct)
  case Nil
  then show ?case by simp
next
  case (snoc x xs)
  show ?case
  proof (cases "P x")
    case True
    with snoc.prems have "b = x" by simp
    with True have "xs @ [x] = xs @ b # [] \<and> P b \<and> (\<forall>x\<in>set []. \<not> P x)" by simp
    then show ?thesis by blast
  next
    case False
    with snoc.prems have "find P (rev xs) = Some b" by simp
    from snoc.IH[OF this] obtain pre post where
      "xs = pre @ b # post" "P b" "\<forall>x\<in>set post. \<not> P x" by blast
    with False have "xs @ [x] = pre @ b # (post @ [x]) \<and> P b \<and> (\<forall>y\<in>set (post @ [x]). \<not> P y)"
      by auto
    then show ?thesis by blast
  qed
qed

lemma scaffold_make_hit: "scaffold (make_hit seq nm0 nm1 sdir gidx arm_len gap scaf bvar item) = scaf"
  by (simp add: make_hit_def Let_def)

lemma demo_run_two_barcodes:
  "generate_padlocks demo_env ''AAAAAA'' ''n0'' ''n1'' ''fwd'' [''AT'', ''CC''] (- 1) 1
     (Some (demo_params 0 0)) =
   Inr [\<lparr>name0 = ''n0'', name1 = ''n1'', strand_dir = ''fwd'', genome_idx = - 1, idx = 0,
          gap_size = 0, padlock_seq = ''ATCACCACCTA'', barcode = ''CC'', seq_r = ''A'',
          scaffold = ''TCACCACCT'', seq_l = ''A''\<rparr>,
        \<lparr>name0 = ''n0'', name1 = ''n1'', strand_dir = ''fwd'', genome_idx = - 1, idx = 3,
          gap_size = 0, padlock_seq = ''ATCACCACCTA'', barcode = ''CC'', seq_r = ''A'',
          scaffold = ''TCACCACCT'', seq_l = ''A''\<rparr>]"
  by code_simp

text \<open>
  Claim C6, as amended. Given a list of barcodes of which at least one is viable, the
  scaffold that \<^verbatim>\<open>generate_padlocks\<close> uses for the whole run is the one instantiated from
  the \<^emph>\<open>last\<close> viable barcode of the list: the list splits as \<open>pre @ b # post\<close> with \<open>b\<close>
  viable and no viable barcode in \<open>post\<close>, the loop over the barcodes ends with the
  scaffold of \<open>b\<close>, and every returned probe carries it.
\<close>

theorem scaffold_of_last_viable_barcode:
  assumes "b0 \<in> set barcodes" and "viable_barcode (PADLOCK_SEQS E) b0"
  shows "\<exists>pre b post s.
           barcodes = pre @ b # post \<and>
           viable_barcode (PADLOCK_SEQS E) b \<and>
           (\<forall>x\<in>set post. \<not> viable_barcode (PADLOCK_SEQS E) x) \<and>
           create_scaffold (PADLOCK_SEQS E) b ''hybrid'' = Inr s \<and>
           barcode_loop (PADLOCK_SEQS E) barcodes ('''', None) = Inr (s, Some (last barcodes)) \<and>
           (\<forall>hits. generate_padlocks E seq nm0 nm1 sdir barcodes gidx arm_len pa = Inr hits \<longrightarrow>
              (\<forall>h\<in>set hits. scaffold h = s))"
proof -
  from assms(1) have ne: "barcodes \<noteq> []" by auto
  from find_viable[OF assms] obtain b where
    b: "find (viable_barcode (PADLOCK_SEQS E)) (rev barcodes) = Some b" ..
  from find_rev_Some[OF b] obtain pre post where
    sp: "barcodes = pre @ b # post" "viable_barcode (PADLOCK_SEQS E) b"
      "\<forall>x\<in>set post. \<not> viable_barcode (PADLOCK_SEQS E) x" by blast
  define s where "s = str_format (SCAFFOLD_SEQ_HYBRID (PADLOCK_SEQS E)) b"
  have cs: "create_scaffold (PADLOCK_SEQS E) b ''hybrid'' = Inr s"
    by (simp add: create_scaffold_hybrid s_def)
  have loop: "barcode_loop (PADLOCK_SEQS E) barcodes ('''', None) = Inr (s, Some (last barcodes))"
    using ne b by (simp add: barcode_loop_result s_def)
  have hits: "\<forall>h\<in>set hits. scaffold h = s"
    if "generate_padlocks E seq nm0 nm1 sdir barcodes gidx arm_len pa = Inr hits" for hits
    using generate_padlocks_Inr[OF that] loop by (auto simp: scaffold_make_hit)
  from sp cs loop hits show ?thesis by blast
qed

theorem scaffold_of_last_viable_barcode_witness:
  "''AT'' \<in> set [''AT'', ''CC''] \<and>
   viable_barcode (PADLOCK_SEQS demo_env) ''AT'' \<and>
   (\<exists>b s. viable_barcode (PADLOCK_SEQS demo_env) b \<and>
      create_scaffold (PADLOCK_SEQS demo_env) b ''hybrid'' = Inr s \<and>
      barcode_loop (PADLOCK_SEQS demo_env) [''AT'', ''CC''] ('''', None) = Inr (s, Some ''CC'')) \<and>
   barcode_loop (PADLOCK_SEQS demo_env) [''AT'', ''CC''] ('''', None) =
     Inr (''TCACCACCT'', Some ''CC'') \<and>
   create_scaffold (PADLOCK_SEQS demo_env) ''CC'' ''hybrid'' = Inr ''TCACCACCT''"
proof -
  have m: "''AT'' \<in> set [''AT'', ''CC'']" by simp
  have v: "viable_barcode (PADLOCK_SEQS demo_env) ''AT''" by code_simp
  have l: "barcode_loop (PADLOCK_SEQS demo_env) [''AT'', ''CC''] ('''', None) =
     Inr (''TCACCACCT'', Some ''CC'')" by code_simp
  have c: "create_scaffold (PADLOCK_SEQS demo_env) ''CC'' ''hybrid'' = Inr ''TCACCACCT''"
    by code_simp
  have la: "last [''AT'', ''CC''] = ''CC''" by simp
  have "\<exists>b s. viable_barcode (PADLOCK_SEQS demo_env) b \<and>
      create_scaffold (PADLOCK_SEQS demo_env) b ''hybrid'' = Inr s \<and>
      barcode_loop (PADLOCK_SEQS demo_env) [''AT'', ''CC''] ('''', None) = Inr (s, Some ''CC'')"
    using scaffold_of_last_viable_barcode[OF m v] unfolding la by blast
  with m v l c show ?thesis by blast
qed

text \<open>
  Claim C6 as stated (the scaffold of the \<^emph>\<open>first\<close> viable barcode) fails. Both \<^verbatim>\<open>AT\<close> and
  \<^verbatim>\<open>CC\<close> are viable; the first viable barcode is \<^verbatim>\<open>AT\<close>, with scaffold
  \<^verbatim>\<open>TCAATACCT\<close>, and the probes carry \<^verbatim>\<open>TCACCACCT\<close>, the scaffold of \<^verbatim>\<open>CC\<close>.
\<close>

theorem first_viable_barcode_counterexample:
  "find (viable_barcode (PADLOCK_SEQS demo_env)) [''AT'', ''CC''] = Some ''AT'' \<and>
   create_scaffold (PADLOCK_SEQS demo_env) ''AT'' ''hybrid'' = Inr ''TCAATACCT'' \<and>
   generate_padlocks demo_env ''AAAAAA'' ''n0'' ''n1'' ''fwd'' [''AT'', ''CC''] (- 1) 1
     (Some (demo_params 0 0)) =
   Inr [\<lparr>name0 = ''n0'', name1 = ''n1'', strand_dir = ''fwd'', genome_idx = - 1, idx = 0,
          gap_size = 0, padlock_seq = ''ATCACCACCTA'', barcode = ''CC'', seq_r = ''A'',
          scaffold = ''TCACCACCT'', seq_l = ''A''\<rparr>,
        \<lparr>name0 = ''n0'', name1 = ''n1'', strand_dir = ''fwd'', genome_idx = - 1, idx = 3,
          gap_size = 0, padlock_seq = ''ATCACCACCTA'', barcode = ''CC'', seq_r = ''A'',
          scaffold = ''TCACCACCT'', seq_l = ''A''\<rparr>] \<and>
   scaffold \<lparr>name0 = ''n0'', name1 = ''n1'', strand_dir = ''fwd'', genome_idx = - 1, idx = 0,
          gap_size = 0, padlock_seq = ''ATCACCACCTA'', barcode = ''CC'', seq_r = ''A'',
          scaffold = ''TCACCACCT'', seq_l = ''A''\<rparr> \<noteq> ''TCAATACCT''"
proof -
  have f: "find (viable_barcode (PADLOCK_SEQS demo_env)) [''AT'', ''CC''] = Some ''AT''"
    by code_simp
  have c: "create_scaffold (PADLOCK_SEQS demo_env) ''AT'' ''hybrid'' = Inr ''TCAATACCT''"
    by code_simp
  from f c demo_run_two_barcodes show ?thesis by simp
qed

subsection \<open>The arm screen\<close>

lemma fst_exclude_loop:
  "fst (exclude_loop exs p (f, found)) = (f \<or> list_ex (\<lambda>ex. py_in ex p) exs)"
  by (induction exs arbitrary: found) auto

lemma if_False_conj: "(if c then False else g) = (\<not> c \<and> g)"
  by simp

text \<open>
  Claim C4, as amended. \<^verbatim>\<open>screen_padlock_arms\<close> accepts exactly when: the GC fraction
  of each arm lies between \<^verbatim>\<open>arm_gc_min\<close> and \<^verbatim>\<open>arm_gc_max\<close>; the G/C count of the first
  five bases of the \<^emph>\<open>left\<close> arm is at most 3 (no clamp of the right arm is looked at); the
  Tm of each arm is at least \<^verbatim>\<open>arm_tm_min\<close>; no excluded sequence occurs in
  \<open>right arm + loop + left arm\<close>; and the three heterodimer Tms are at most
  \<^verbatim>\<open>structure_tm_max\<close>. The calculators are arbitrary functions into a linear order.
\<close>

theorem screen_accepts_iff_criteria:
  "fst (screen_padlock_arms E p_l_seq p_r_seq loop_seq P) \<longleftrightarrow>
     (cfg_arm_gc_min P \<le> gc_content E p_l_seq \<and> gc_content E p_l_seq \<le> cfg_arm_gc_max P \<and>
      cfg_arm_gc_min P \<le> gc_content E p_r_seq \<and> gc_content E p_r_seq \<le> cfg_arm_gc_max P) \<and>
     padlock_left_arm_gc_clamp p_l_seq \<le> 3 \<and>
     (cfg_arm_tm_min P \<le> calcTm E p_l_seq (cfg_thermo_params P) \<and>
      cfg_arm_tm_min P \<le> calcTm E p_r_seq (cfg_thermo_params P)) \<and>
     \<not> list_ex (\<lambda>ex. py_in ex (p_r_seq @ loop_seq @ p_l_seq)) (cfg_exclude_seqs P) \<and>
     (calcHeterodimerTm E p_l_seq p_r_seq (cfg_thermo_params P) \<le> cfg_structure_tm_max P \<and>
      calcHeterodimerTm E p_l_seq loop_seq (cfg_thermo_params P) \<le> cfg_structure_tm_max P \<and>
      calcHeterodimerTm E p_r_seq loop_seq (cfg_thermo_params P) \<le> cfg_structure_tm_max P)"
proof -
  obtain ex_fail found where
    ex: "exclude_loop (cfg_exclude_seqs P) (p_r_seq @ loop_seq @ p_l_seq) (False, []) =
           (ex_fail, found)"
    by (cases "exclude_loop (cfg_exclude_seqs P) (p_r_seq @ loop_seq @ p_l_seq) (False, [])")
  from fst_exclude_loop[of "cfg_exclude_seqs P" "p_r_seq @ loop_seq @ p_l_seq" False "[]"] ex
  have ef: "ex_fail = list_ex (\<lambda>ex. py_in ex (p_r_seq @ loop_seq @ p_l_seq)) (cfg_exclude_seqs P)"
    by simp
  show ?thesis
    unfolding screen_padlock_arms_def Let_def if_False_conj
    by (simp add: ex not_less) (auto simp: ef)
qed

theorem screen_accepts_iff_criteria_witness:
  "fst (screen_padlock_arms demo_env ''ACATTGACTG'' ''ATATAGCGCC'' ''TCAATACCT''
      (effective_params demo_env (Some (demo_params 20 0)))) \<and>
   padlock_left_arm_gc_clamp ''ACATTGACTG'' \<le> 3 \<and>
   \<not> fst (screen_padlock_arms demo_env ''GCGCA'' ''TTTTT'' ''TCAATACCT''
      (effective_params demo_env (Some (demo_params 20 0)))) \<and>
   \<not> padlock_left_arm_gc_clamp ''GCGCA'' \<le> 3"
proof -
  have a: "fst (screen_padlock_arms demo_env ''ACATTGACTG'' ''ATATAGCGCC'' ''TCAATACCT''
      (effective_params demo_env (Some (demo_params 20 0))))"
    by code_simp
  have b: "\<not> padlock_left_arm_gc_clamp ''GCGCA'' \<le> 3"
    by code_simp
  from a screen_accepts_iff_criteria[of demo_env "''ACATTGACTG''" "''ATATAGCGCC''" "''TCAATACCT''"
      "effective_params demo_env (Some (demo_params 20 0))"]
  have c: "padlock_left_arm_gc_clamp ''ACATTGACTG'' \<le> 3" by blast
  from b screen_accepts_iff_criteria[of demo_env "''GCGCA''" "''TTTTT''" "''TCAATACCT''"
      "effective_params demo_env (Some (demo_params 20 0))"]
  have d: "\<not> fst (screen_padlock_arms demo_env ''GCGCA'' ''TTTTT'' ''TCAATACCT''
      (effective_params demo_env (Some (demo_params 20 0))))" by blast
  from a b c d show ?thesis by blast
qed

text \<open>
  Claim C4 as stated (the clamp criterion on each arm) fails: the pair below is accepted
  although the last five bases of the right arm, \<^verbatim>\<open>GCGCC\<close>, are all G or C, and the first
  five hold three.
\<close>

theorem right_arm_clamp_counterexample:
  "fst (screen_padlock_arms demo_env ''ACATTGACTG'' ''ATATAGCGCC'' ''TCAATACCT''
      (effective_params demo_env (Some (demo_params 20 0)))) \<and>
   padlock_right_arm_gc_clamp ''ATATAGCGCC'' = 5 \<and>
   \<not> padlock_right_arm_gc_clamp ''ATATAGCGCC'' \<le> 3"
  by code_simp

lemma snd_exclude_loop:
  "length (snd (exclude_loop exs p (f, found))) \<le> Suc (length found)"
  by (induction exs arbitrary: found) auto

lemma report_ex_seq_at_most_one:
  "length (ex_seq (snd (screen_padlock_arms E l r lp P))) \<le> 1"
  using snd_exclude_loop[of "cfg_exclude_seqs P" "r @ lp @ l" False "[]"]
  by (auto simp: screen_padlock_arms_def Let_def split: prod.splits)

lemma report_l_clamp_False:
  "l_clamp (snd (screen_padlock_arms E l r lp P)) = False"
  by (simp add: screen_padlock_arms_def Let_def split: prod.splits)

text \<open>
  Claim C5 fails on these runs. With the excluded sequences \<^verbatim>\<open>AA\<close> and \<^verbatim>\<open>CC\<close>, both
  of which occur in \<open>right arm + loop + left arm\<close>, the report lists \<^verbatim>\<open>AA\<close> only: the loop
  stops at the first match. And the field \<^verbatim>\<open>l_clamp\<close> is \<open>False\<close> both for a left arm that
  passes the clamp check (\<^verbatim>\<open>AACCT\<close>, two of five) and for one that fails it
  (\<^verbatim>\<open>GCGCA\<close>, four of five).
\<close>

theorem report_first_match_and_constant_clamp:
  "ex_seq (snd (screen_padlock_arms demo_env ''AACCT'' ''TTTTT'' ''TCAATACCT''
      (effective_params demo_env
         (Some ((demo_params 20 0)\<lparr>key_exclude_seqs := Some [''AA'', ''CC'']\<rparr>))))) = [''AA''] \<and>
   py_in ''AA'' (''TTTTT'' @ ''TCAATACCT'' @ ''AACCT'') \<and>
   py_in ''CC'' (''TTTTT'' @ ''TCAATACCT'' @ ''AACCT'') \<and>
   padlock_left_arm_gc_clamp ''AACCT'' = 2 \<and>
   l_clamp (snd (screen_padlock_arms demo_env ''AACCT'' ''TTTTT'' ''TCAATACCT''
      (effective_params demo_env
         (Some ((demo_params 20 0)\<lparr>key_exclude_seqs := Some [''AA'', ''CC'']\<rparr>))))) = False \<and>
   padlock_left_arm_gc_clamp ''GCGCA'' = 4 \<and>
   l_clamp (snd (screen_padlock_arms demo_env ''GCGCA'' ''TTTTT'' ''TCAATACCT''
      (effective_params demo_env (Some (demo_params 20 0))))) = False"
  by code_simp

subsection \<open>The key \<^verbatim>\<open>keep_random_n\<close>\<close>

lemma screen_padlock_arms_keep_random_n_key:
  "screen_padlock_arms E l r lp (P\<lparr>cfg_keep_random_n := t\<rparr>) = screen_padlock_arms E l r lp P"
  by (simp add: screen_padlock_arms_def)

lemma screen_windows_keep_random_n_key:
  "screen_windows E seq a g sc (P\<lparr>cfg_keep_random_n := t\<rparr>) is = screen_windows E seq a g sc P is"
  by (induction "is")
     (simp_all add: screen_padlock_arms_keep_random_n_key Let_def split: prod.splits)

lemma effective_params_keep_random_n_key:
  "effective_params E (Some (p\<lparr>key_keep_random_n := x\<rparr>)) =
     (effective_params E (Some p))\<lparr>cfg_keep_random_n :=
        override (cfg_keep_random_n (DEFAULT_PADLOCK_CONFIG E)) x\<rparr>"
  by (simp add: effective_params_def dict_update_def)

lemma generate_padlocks_keep_random_n_key:
  "generate_padlocks E seq nm0 nm1 sdir barcodes gidx arm_len (Some (p\<lparr>key_keep_random_n := x\<rparr>)) =
   generate_padlocks E seq nm0 nm1 sdir barcodes gidx arm_len (Some p)"
  by (simp add: generate_padlocks_def effective_params_keep_random_n_key
      screen_windows_keep_random_n_key Let_def split: sum.splits prod.splits option.splits)

text \<open>
  Claim C9 fails on this run: with \<^verbatim>\<open>keep_random_n\<close> set to 1 two probes are returned.
  The key is never read.
\<close>

theorem keep_random_n_not_applied:
  "generate_padlocks demo_env ''AAAAAA'' ''n0'' ''n1'' ''fwd'' [''AT''] (- 1) 1
     (Some ((demo_params 0 0)\<lparr>key_keep_random_n := Some (Some 1)\<rparr>)) =
   Inr [\<lparr>name0 = ''n0'', name1 = ''n1'', strand_dir = ''fwd'', genome_idx = - 1, idx = 0,
          gap_size = 0, padlock_seq = ''ATCAATACCTA'', barcode = ''AT'', seq_r = ''A'',
          scaffold = ''TCAATACCT'', seq_l = ''A''\<rparr>,
        \<lparr>name0 = ''n0'', name1 = ''n1'', strand_dir = ''fwd'', genome_idx = - 1, idx = 3,
          gap_size = 0, padlock_seq = ''ATCAATACCTA'', barcode = ''AT'', seq_r = ''A'',
          scaffold = ''TCAATACCT'', seq_l = ''A''\<rparr>] \<and>
   cfg_keep_random_n (effective_params demo_env
     (Some ((demo_params 0 0)\<lparr>key_keep_random_n := Some (Some 1)\<rparr>))) = Some 1"
  by code_simp

end
